theory Spec2Isabelle
  imports Main "HOL-Library.AList"
begin

section \<open>Strings\<close>

text \<open>
  Text is a \<open>string\<close>, one \<open>char\<close> per code point (code points below 256). In that
  range the regular-expression class \<open>\d\<close> is exactly \<open>0\<close>..\<open>9\<close>, and \<open>[a-z]\<close> is
  the ASCII lower-case letters.
\<close>

definition newline :: char where
  "newline = CHR 0x0A"

definition is_digit :: "char \<Rightarrow> bool" where
  "is_digit c = ((48::nat) \<le> of_char c \<and> of_char c \<le> (57::nat))"

definition is_lower :: "char \<Rightarrow> bool" where
  "is_lower c = ((97::nat) \<le> of_char c \<and> of_char c \<le> (122::nat))"

text \<open>\<open>s.startswith(p)\<close>.\<close>

fun startswith :: "string \<Rightarrow> string \<Rightarrow> bool" where
  "startswith s [] = True"
| "startswith [] (p # ps) = False"
| "startswith (c # cs) (p # ps) = (c = p \<and> startswith cs ps)"

text \<open>\<open>sub in s\<close> on strings: \<open>sub\<close> occurs in \<open>s\<close> as a contiguous substring.\<close>

fun str_in :: "string \<Rightarrow> string \<Rightarrow> bool" where
  "str_in sub [] = (sub = [])"
| "str_in sub (c # cs) = (startswith (c # cs) sub \<or> str_in sub cs)"

text \<open>\<open>sep.join(xs)\<close>.\<close>

fun str_join :: "string \<Rightarrow> string list \<Rightarrow> string" where
  "str_join sep [] = []"
| "str_join sep [x] = x"
| "str_join sep (x # y # ys) = x @ sep @ str_join sep (y # ys)"

text \<open>\<open>str(n)\<close> for a non-negative integer, as the f-strings print \<open>len(...)\<close>.\<close>

fun str_nat :: "nat \<Rightarrow> string" where
  "str_nat n =
     (if n < 10 then [char_of (48 + n)]
      else str_nat (n div 10) @ [char_of (48 + n mod 10)])"

declare str_nat.simps [simp del]

text \<open>
  \<open>os.path.join(a, b)\<close> of \<open>posixpath\<close>: an absolute second component replaces the
  first; otherwise the two are joined with one separator.
\<close>

definition join :: "string \<Rightarrow> string \<Rightarrow> string" where
  "join a b =
     (if startswith b ''/'' then b
      else if a = [] \<or> last a = CHR ''/'' then a @ b
      else a @ ''/'' @ b)"

section \<open>Data model\<close>

text \<open>A track is the tuple \<open>m.groups()\<close>: the id and the language, both strings.\<close>

type_synonym track = "string \<times> string"

text \<open>
  Class \<open>MKVFile\<close>. The class attributes \<open>audio_args = []\<close> and \<open>subtitle_args = []\<close>
  are what an instance reads until it is assigned its own; they are never mutated, so a
  fresh instance has both empty.
\<close>

record MKVFile =
  filename :: string
  audio :: "track list"
  subtitle :: "track list"
  root :: string
  audio_args :: "string list"
  subtitle_args :: "string list"

definition new_MKVFile :: "string \<Rightarrow> string \<Rightarrow> track list \<Rightarrow> track list \<Rightarrow> MKVFile" where
  "new_MKVFile r f a s =
     \<lparr>filename = f, audio = a, subtitle = s, root = r, audio_args = [], subtitle_args = []\<rparr>"

text \<open>The exceptions the script can raise, with their argument.\<close>

datatype error =
    Exception string
  | RuntimeError string
  | UnboundLocalError string
  | NameError string
  | FileNotFoundError string

text \<open>What the script does to the outside, in order.\<close>

datatype event =
    Log string
  | Print string
  | Popen "string list"
  | Rename string string

text \<open>
  The state: the module-level variables \<open>content\<close> and \<open>file_to_tracks\<close> (a dict, in
  insertion order), the trace of events, and the files on disk (path to content).
\<close>

record state =
  content :: string
  file_to_tracks :: "(string \<times> MKVFile) list"
  events :: "event list"
  fsys :: "string \<rightharpoonup> string"

text \<open>
  The command line (\<open>args\<close>) and the collaborators: \<open>md5(...).hexdigest()\<close> and the
  external process, which gets the command and the disk and gives its return code, its
  decoded standard output and the disk it leaves.
\<close>

record env =
  input_directory :: string
  audio_language :: "string option"
  subtitle_language :: "string option"
  list_tracks_flag :: bool
  md5_hexdigest :: "string \<Rightarrow> string"
  run_process :: "string list \<Rightarrow> (string \<rightharpoonup> string) \<Rightarrow> int \<times> string \<times> (string \<rightharpoonup> string)"

definition MKVMERGE :: string where
  "MKVMERGE = ''C:/Program Files/MKVtoolnix/mkvmerge.exe''"

definition critical :: "string \<Rightarrow> state \<Rightarrow> state" where
  "critical msg st = st\<lparr>events := events st @ [Log msg]\<rparr>"

definition result_state :: "(error \<times> state) + state \<Rightarrow> state" where
  "result_state r = (case r of Inl (e, s) \<Rightarrow> s | Inr s \<Rightarrow> s)"

section \<open>Track parser\<close>

text \<open>
  The tail \<open>.*language:([a-z]{3})\<close> of both patterns. \<open>.*\<close> is greedy, so the group
  is taken at the last place where \<open>language:\<close> and three lower-case letters stand.
\<close>

fun language_here :: "string \<Rightarrow> string option" where
  "language_here s =
     (if startswith s ''language:'' then
        (case drop 9 s of
           a # b # c # _ \<Rightarrow> if is_lower a \<and> is_lower b \<and> is_lower c then Some [a, b, c] else None
         | _ \<Rightarrow> None)
      else None)"

fun last_language :: "string \<Rightarrow> string option" where
  "last_language [] = None"
| "last_language (c # cs) =
     (case last_language cs of
        Some l \<Rightarrow> Some l
      | None \<Rightarrow> language_here (c # cs))"

text \<open>
  \<open>re.compile(r"Track ID (\d+): KIND .*language:([a-z]{3})").match(line)\<close>, giving
  \<open>m.groups()\<close>. The match is anchored at the start of the line; \<open>\d+\<close> takes the whole
  run of digits, since a colon must follow; \<open>.\<close> does not match a newline.
\<close>

definition track_re :: "string \<Rightarrow> string \<Rightarrow> track option" where
  "track_re kind line =
     (if startswith line ''Track ID '' then
        (let r1 = drop 9 line;
             ds = takeWhile is_digit r1;
             r2 = dropWhile is_digit r1;
             lit = '': '' @ kind @ '' ''
         in if ds \<noteq> [] \<and> startswith r2 lit then
              (case last_language (takeWhile (\<lambda>c. c \<noteq> newline) (drop (length lit) r2)) of
                 Some l \<Rightarrow> Some (ds, l)
               | None \<Rightarrow> None)
            else None)
      else None)"

definition AUDIO_RE :: "string \<Rightarrow> track option" where
  "AUDIO_RE = track_re ''audio''"

definition SUBTITLE_RE :: "string \<Rightarrow> track option" where
  "SUBTITLE_RE = track_re ''subtitles''"

text \<open>Iterating \<open>StringIO(text)\<close>: the lines, each with its newline.\<close>

fun readlines :: "string \<Rightarrow> string list" where
  "readlines [] = []"
| "readlines (c # cs) =
     (if c = newline then [c] # readlines cs
      else (case readlines cs of
              [] \<Rightarrow> [[c]]
            | l # ls \<Rightarrow> (c # l) # ls))"

text \<open>The loop of \<open>_extract_tracks\<close> over the lines.\<close>

fun extract_loop :: "string list \<Rightarrow> track list \<times> track list \<Rightarrow> track list \<times> track list" where
  "extract_loop [] acc = acc"
| "extract_loop (line # rest) (au, su) =
     (case AUDIO_RE line of
        Some g \<Rightarrow> extract_loop rest (au @ [g], su)
      | None \<Rightarrow>
          (case SUBTITLE_RE line of
             Some g \<Rightarrow> extract_loop rest (au, su @ [g])
           | None \<Rightarrow> extract_loop rest (au, su)))"

text \<open>
  \<open>_extract_tracks(mkvmerge_output, filename)\<close>. The body reads the module-level
  \<open>content\<close>, not its parameter \<open>mkvmerge_output\<close>.
\<close>

definition extract_tracks ::
  "string \<Rightarrow> string \<Rightarrow> state \<Rightarrow> (track list \<times> track list) \<times> state" where
  "extract_tracks mkvmerge_output fname st =
     (let st1 = critical (''['' @ fname @ ''] Extracting tracks'') st;
          (au, su) = extract_loop (readlines (content st1)) ([], []);
          st2 = critical (''['' @ fname @ ''] Found '' @ str_nat (length au) @ '' audio and ''
                          @ str_nat (length su) @ '' subtitle tracks'') st1
      in ((au, su), st2))"

section \<open>Identification\<close>

text \<open>
  \<open>_mkvmerge_identify(root, filename)\<close>: run the tool and return its output; a non-zero
  return code is logged and raised as an exception carrying the output.
\<close>

definition mkvmerge_identify ::
  "env \<Rightarrow> string \<Rightarrow> string \<Rightarrow> state \<Rightarrow> (error \<times> state) + (string \<times> state)" where
  "mkvmerge_identify e rt fname st =
     (let st1 = critical (''['' @ fname @ ''] Identifying'') st;
          cmd = [MKVMERGE, ''--identify-verbose'', join rt fname];
          (returncode, stdout, disk) = run_process e cmd (fsys st1);
          st2 = st1\<lparr>events := events st1 @ [Popen cmd], fsys := disk\<rparr>
      in if returncode \<noteq> 0 then
           Inl (Exception stdout,
                critical (''['' @ fname @ ''] mkvmerge failed to identify the file'') st2)
         else Inr (stdout, st2))"

text \<open>
  The first loop of the script: identify each file, parse the output, and enter the file in
  \<open>file_to_tracks\<close> under the digest of its name. Nothing catches the exception of
  \<open>_mkvmerge_identify\<close>.
\<close>

fun identify_loop :: "env \<Rightarrow> string list \<Rightarrow> state \<Rightarrow> (error \<times> state) + state" where
  "identify_loop e [] st = Inr st"
| "identify_loop e (fname # rest) st =
     (case mkvmerge_identify e (input_directory e) fname st of
        Inl err \<Rightarrow> Inl err
      | Inr (out, st1) \<Rightarrow>
          (let st2 = st1\<lparr>content := out\<rparr>;
               ((audio_tracks, subtitle_tracks), st3) = extract_tracks (content st2) fname st2;
               st4 = st3\<lparr>file_to_tracks :=
                        AList.update (md5_hexdigest e fname)
                          (new_MKVFile (input_directory e) fname audio_tracks subtitle_tracks)
                          (file_to_tracks st3)\<rparr>
           in identify_loop e rest st4))"

section \<open>Listing\<close>

definition list_one :: "MKVFile \<Rightarrow> event list" where
  "list_one r =
     [Print ''f{rec.filename}'', Print '' Audio tracks'']
     @ map (\<lambda>t. Print (''  '' @ fst t @ '' is '' @ snd t)) (audio r)
     @ map (\<lambda>t. Print (''  '' @ fst t @ '' is '' @ snd t)) (subtitle r)
     @ [Print []]"

definition list_tracks :: "state \<Rightarrow> state" where
  "list_tracks st =
     st\<lparr>events := events st @ concat (map (\<lambda>(key, r). list_one r) (file_to_tracks st))\<rparr>"

section \<open>Eligibility checks\<close>

text \<open>
  \<open>_audio_check(file_tracks)\<close>, called on the dict \<open>file_to_tracks\<close> itself. The loop
  iterates \<open>file_tracks.items()\<close> and deletes from the same dict; the iterator notices the
  changed size when it is asked for the next item (also after the last one) and raises
  \<open>RuntimeError\<close>. So the loop ends normally only when it deletes nothing.
\<close>

fun audio_check_loop :: "(string \<times> MKVFile) list \<Rightarrow> state \<Rightarrow> (error \<times> state) + state" where
  "audio_check_loop [] st = Inr st"
| "audio_check_loop ((key, r) # items) st =
     (if length (audio r) < 2 then
        (let st1 = critical (''['' @ filename r @ ''] At least 1 audio track required'') st;
             st2 = st1\<lparr>file_to_tracks := AList.delete key (file_to_tracks st1)\<rparr>
         in Inl (RuntimeError ''dictionary changed size during iteration'', st2))
      else audio_check_loop items st)"

definition audio_check :: "state \<Rightarrow> (error \<times> state) + state" where
  "audio_check st = audio_check_loop (file_to_tracks st) st"

fun subtitle_check_loop :: "(string \<times> MKVFile) list \<Rightarrow> state \<Rightarrow> (error \<times> state) + state" where
  "subtitle_check_loop [] st = Inr st"
| "subtitle_check_loop ((key, r) # items) st =
     (if length (subtitle r) < 2 then
        (let st1 = critical (''['' @ filename r @ ''] At least 1 subtitle track required'') st;
             st2 = st1\<lparr>file_to_tracks := AList.delete key (file_to_tracks st1)\<rparr>
         in Inl (RuntimeError ''dictionary changed size during iteration'', st2))
      else subtitle_check_loop items st)"

definition subtitle_check :: "state \<Rightarrow> (error \<times> state) + state" where
  "subtitle_check st = subtitle_check_loop (file_to_tracks st) st"

section \<open>Track selection and argument building\<close>

text \<open>Truth value of an optional string: \<open>None\<close> and the empty string are false.\<close>

definition truthy :: "string option \<Rightarrow> bool" where
  "truthy l = (case l of None \<Rightarrow> False | Some s \<Rightarrow> s \<noteq> [])"

definition str_opt :: "string option \<Rightarrow> string" where
  "str_opt l = (case l of None \<Rightarrow> ''None'' | Some s \<Rightarrow> s)"

text \<open>The arguments for the kept tracks: the track list, then one default marker each.\<close>

definition default_track_args :: "track list \<Rightarrow> string list" where
  "default_track_args filterlang =
     concat (map (\<lambda>i. [''--default-track'',
                        str_join '':'' [fst (filterlang ! i), if i \<noteq> 0 then ''0'' else ''1'']])
                 [0 ..< length filterlang])"

definition track_args :: "string \<Rightarrow> track list \<Rightarrow> string list" where
  "track_args langtype filterlang =
     [''--'' @ langtype @ ''-tracks'', str_join '','' (map fst filterlang)]
     @ default_track_args filterlang"

text \<open>
  One iteration of the loop of \<open>_build_args(langtype)\<close>. The locals \<open>lang\<close> and
  \<open>field\<close> are bound only under the two tests on \<open>langtype\<close>, both of which read the
  audio language and the audio tracks; when neither test holds they are unbound in every
  iteration, and reading \<open>field\<close> raises \<open>UnboundLocalError\<close>. The message of the
  no-match branch reads the module-level name \<open>path\<close>, which the script binds only in its
  last loop, after every call of \<open>_build_args\<close>: formatting it raises \<open>NameError\<close>.
\<close>

definition build_args_step ::
  "env \<Rightarrow> string \<Rightarrow> string \<Rightarrow> MKVFile \<Rightarrow> state \<Rightarrow> (error \<times> state) + state" where
  "build_args_step e langtype key r st =
     (let st1 = critical (''['' @ filename r @ ''] Building CLI arguments for ''
                          @ langtype @ '' tracks'') st;
          b0 = None;
          b1 = (if str_in ''audio'' langtype then Some (audio_language e, audio r) else b0);
          b2 = (if str_in ''language'' langtype then Some (audio_language e, audio r) else b1)
      in case b2 of
           None \<Rightarrow> Inl (UnboundLocalError ''field'', st1)
         | Some (lang, field) \<Rightarrow>
             (let filterlang = filter (\<lambda>a. Some (snd a) = lang) field
              in if truthy lang \<and> length filterlang = 0 then
                   Inl (NameError ''path'', st1)
                 else if length filterlang > 1 then
                   Inr (critical (''['' @ filename r @ ''] More than one '' @ langtype
                                  @ '' track matching '' @ str_opt lang @ ''. Skipping'') st1)
                 else
                   (let cmd = (if length filterlang \<noteq> 0 then track_args langtype filterlang
                               else []);
                        r1 = (if str_in ''audio'' langtype then r\<lparr>audio_args := cmd\<rparr> else r);
                        r2 = (if str_in ''audio'' langtype then r1\<lparr>subtitle_args := cmd\<rparr> else r1)
                    in Inr (st1\<lparr>file_to_tracks := AList.update key r2 (file_to_tracks st1)\<rparr>))))"

fun build_args_loop ::
  "env \<Rightarrow> string \<Rightarrow> (string \<times> MKVFile) list \<Rightarrow> state \<Rightarrow> (error \<times> state) + state" where
  "build_args_loop e langtype [] st = Inr st"
| "build_args_loop e langtype ((key, r) # items) st =
     (case build_args_step e langtype key r st of
        Inl err \<Rightarrow> Inl err
      | Inr st1 \<Rightarrow> build_args_loop e langtype items st1)"

text \<open>
  \<open>_build_args(langtype)\<close>. The test of \<open>langtype\<close> at its head builds an exception
  and does not raise it. The loop writes only the record of the key it is at, so it sees
  the items as they were when it began.
\<close>

definition build_args :: "env \<Rightarrow> string \<Rightarrow> state \<Rightarrow> (error \<times> state) + state" where
  "build_args e langtype st = build_args_loop e langtype (file_to_tracks st) st"

section \<open>Remux and commit\<close>

text \<open>
  \<open>os.rename(src, dst)\<close> on regular files: the source must exist; a file at the
  destination is replaced.
\<close>

definition os_rename :: "string \<Rightarrow> string \<Rightarrow> state \<Rightarrow> (error \<times> state) + state" where
  "os_rename src dst st =
     (case fsys st src of
        None \<Rightarrow> Inl (FileNotFoundError src, st)
      | Some data \<Rightarrow>
          Inr (st\<lparr>events := events st @ [Rename src dst],
                  fsys := ((fsys st)(src := None))(dst \<mapsto> data)\<rparr>))"

definition remux_cmd :: "MKVFile \<Rightarrow> string list" where
  "remux_cmd r =
     [MKVMERGE, ''-o'', join (root r) (filename r) @ ''.temp'']
     @ audio_args r @ subtitle_args r @ [join (root r) (filename r)]"

text \<open>One iteration of the last loop of the script.\<close>

definition process_file :: "env \<Rightarrow> MKVFile \<Rightarrow> state \<Rightarrow> (error \<times> state) + state" where
  "process_file e r st =
     (if audio_args r = [] \<and> subtitle_args r = [] then
        Inr (critical (''['' @ filename r @ ''] No work to be done'') st)
      else
        (let path = join (root r) (filename r);
             old_file = ''old'' @ filename r;
             cmd = remux_cmd r;
             st1 = critical (''['' @ filename r @ ''] Processing ...'') st;
             (returncode, stdout, disk) = run_process e cmd (fsys st1);
             st2 = st1\<lparr>events := events st1 @ [Popen cmd], fsys := disk\<rparr>
         in if returncode \<noteq> 0 then
              Inl (Exception stdout, critical ''Failed'' st2)
            else
              (case os_rename path (join (root r) old_file) (critical ''Success'' st2) of
                 Inl err \<Rightarrow> Inl err
               | Inr st3 \<Rightarrow> os_rename (path @ ''.temp'') path st3)))"

fun main_loop :: "env \<Rightarrow> (string \<times> MKVFile) list \<Rightarrow> state \<Rightarrow> (error \<times> state) + state" where
  "main_loop e [] st = Inr st"
| "main_loop e ((key, r) # items) st =
     (case process_file e r st of
        Inl err \<Rightarrow> Inl err
      | Inr st1 \<Rightarrow> main_loop e items st1)"

section \<open>The script\<close>

definition bind :: "(error \<times> state) + state \<Rightarrow> (state \<Rightarrow> (error \<times> state) + state)
    \<Rightarrow> (error \<times> state) + state" where
  "bind m f = (case m of Inl err \<Rightarrow> Inl err | Inr st \<Rightarrow> f st)"

text \<open>
  The module body from the loop over \<open>files\<close> on, \<open>files\<close> being what the directory
  listing gave. There is no \<open>try\<close> in the script: the first exception ends the run.
\<close>

definition script :: "env \<Rightarrow> string list \<Rightarrow> state \<Rightarrow> (error \<times> state) + state" where
  "script e files st =
     bind (identify_loop e files st) (\<lambda>s1.
     bind (Inr (if list_tracks_flag e then list_tracks s1 else s1)) (\<lambda>s2.
     bind (if truthy (audio_language e) then audio_check s2 else Inr s2) (\<lambda>s3.
     bind (if truthy (subtitle_language e) then subtitle_check s3 else Inr s3) (\<lambda>s4.
     bind (if truthy (audio_language e) then build_args e ''audio'' s4 else Inr s4) (\<lambda>s5.
     bind (if truthy (subtitle_language e) then build_args e ''subtitle'' s5 else Inr s5) (\<lambda>s6.
     main_loop e (file_to_tracks s6) s6))))))"

section \<open>A concrete run\<close>

text \<open>What a run shows: the exception, if any, the trace and the dict.\<close>

definition outcome ::
  "(error \<times> state) + state \<Rightarrow> error option \<times> event list \<times> (string \<times> MKVFile) list" where
  "outcome res =
     (case res of
        Inl (err, s) \<Rightarrow> (Some err, events s, file_to_tracks s)
      | Inr s \<Rightarrow> (None, events s, file_to_tracks s))"

definition example_identify :: string where
  "example_identify =
     ''Track ID 1: audio language:eng\<newline>Track ID 2: audio language:jpn\<newline>Track ID 3: subtitles language:eng\<newline>Track ID 4: subtitles language:fre\<newline>''"

text \<open>
  A tool that fails to identify \<open>d/bad.mkv\<close>, fails to remux \<open>d/fail.mkv\<close>, and
  otherwise writes its output file.
\<close>

definition example_tool ::
  "string list \<Rightarrow> (string \<rightharpoonup> string) \<Rightarrow> int \<times> string \<times> (string \<rightharpoonup> string)" where
  "example_tool cmd disk =
     (if cmd ! 1 = ''--identify-verbose'' then
        (if cmd ! 2 = ''d/bad.mkv'' then (1, ''boom'', disk) else (0, example_identify, disk))
      else if last cmd = ''d/fail.mkv'' then (2, ''remux error'', disk)
      else (0, ''ok'', disk(cmd ! 2 \<mapsto> ''new'')))"

definition example_env :: "string option \<Rightarrow> string option \<Rightarrow> env" where
  "example_env al sl =
     \<lparr>input_directory = ''d'', audio_language = al, subtitle_language = sl,
      list_tracks_flag = False, md5_hexdigest = (\<lambda>s. ''#'' @ s), run_process = example_tool\<rparr>"

definition example_state :: state where
  "example_state =
     \<lparr>content = [], file_to_tracks = [], events = [],
      fsys = [''d/a.mkv'' \<mapsto> ''orig'', ''d/fail.mkv'' \<mapsto> ''orig2'']\<rparr>"

definition example_file :: "string \<Rightarrow> string list \<Rightarrow> MKVFile" where
  "example_file f xs =
     \<lparr>filename = f, audio = [(''1'', ''eng''), (''2'', ''jpn'')],
      subtitle = [(''3'', ''eng''), (''4'', ''fre'')], root = ''d'',
      audio_args = xs, subtitle_args = []\<rparr>"

definition example_short_file :: MKVFile where
  "example_short_file =
     \<lparr>filename = ''b.mkv'', audio = [(''1'', ''eng'')], subtitle = [(''2'', ''eng'')],
      root = ''d'', audio_args = [], subtitle_args = []\<rparr>"

definition example_jobs :: state where
  "example_jobs =
     \<lparr>content = [],
      file_to_tracks = [(''#a.mkv'', example_file ''a.mkv'' []), (''#b.mkv'', example_short_file)],
      events = [], fsys = Map.empty\<rparr>"

definition example_job :: state where
  "example_job =
     \<lparr>content = [], file_to_tracks = [(''#a.mkv'', example_file ''a.mkv'' [])],
      events = [], fsys = Map.empty\<rparr>"

section \<open>Paths\<close>

lemma join_temp: "join rt (f @ ''.temp'') = join rt f @ ''.temp''"
  by (cases f) (simp_all add: join_def)

lemma backup_ne_path: "join rt (''old'' @ f) \<noteq> join rt f"
proof
  assume "join rt (''old'' @ f) = join rt f"
  then have "length (join rt (''old'' @ f)) = length (join rt f)"
    by simp
  then show False
    by (simp add: join_def split: if_splits)
qed

text \<open>The backup name has one more letter \<open>o\<close> than the temporary name.\<close>

lemma backup_ne_temp: "join rt (''old'' @ f) \<noteq> join rt f @ ''.temp''"
proof
  assume "join rt (''old'' @ f) = join rt f @ ''.temp''"
  then have "count_list (join rt (''old'' @ f)) CHR ''o''
           = count_list (join rt f @ ''.temp'') CHR ''o''"
    by simp
  then show False
    by (simp add: join_def split: if_splits)
qed

section \<open>The parser\<close>


text \<open>The parameter \<open>mkvmerge_output\<close> is never read.\<close>

lemma extract_tracks_ignores_parameter:
  "extract_tracks p fname st = extract_tracks q fname st"
  by (simp add: extract_tracks_def)



section \<open>Remux and commit of one file\<close>

text \<open>
  Claim C9. A file whose audio and subtitle arguments are both empty gets the log line
  "No work to be done" and nothing else: no process is started, nothing is renamed, and the
  loop goes on with the next file.
\<close>

theorem no_work_skipped:
  assumes "audio_args r = []" and "subtitle_args r = []"
  shows "process_file e r st
           = Inr (st\<lparr>events := events st @ [Log (''['' @ filename r @ ''] No work to be done'')]\<rparr>)
         \<and> main_loop e ((key, r) # items) st
           = main_loop e items
               (st\<lparr>events := events st @ [Log (''['' @ filename r @ ''] No work to be done'')]\<rparr>)"
  using assms by (simp add: process_file_def critical_def)

theorem no_work_skipped_witness:
  "outcome (main_loop (example_env None None) [(''k'', example_file ''a.mkv'' [])] example_state)
     = (None, [Log ''[a.mkv] No work to be done''], [])"
proof -
  have h1: "audio_args (example_file ''a.mkv'' []) = []"
    by (simp add: example_file_def)
  have h2: "subtitle_args (example_file ''a.mkv'' []) = []"
    by (simp add: example_file_def)
  show ?thesis
    using no_work_skipped [OF h1 h2, of "example_env None None" example_state "''k''" "[]"]
    by (simp add: outcome_def example_file_def example_state_def)
qed

text \<open>
  Claim C7. When the remux tool returns a non-zero code, the iteration ends in an
  exception carrying the tool's output, after the log line "Failed": the trace has the
  process and no rename, and the disk is as the tool left it.
\<close>

theorem remux_failure_no_commit:
  assumes "\<not> (audio_args r = [] \<and> subtitle_args r = [])"
      and "run_process e (remux_cmd r) (fsys st) = (rc, out, disk)"
      and "rc \<noteq> 0"
  shows "process_file e r st =
           Inl (Exception out,
                st\<lparr>events := events st @ [Log (''['' @ filename r @ ''] Processing ...''),
                                          Popen (remux_cmd r), Log ''Failed''],
                   fsys := disk\<rparr>)"
  using assms by (simp add: process_file_def critical_def Let_def)

theorem remux_failure_no_commit_witness:
  "outcome (process_file (example_env None None)
              (example_file ''fail.mkv'' [''--audio-tracks'', ''1'']) example_state)
     = (Some (Exception ''remux error''),
        [Log ''[fail.mkv] Processing ...'',
         Popen [MKVMERGE, ''-o'', ''d/fail.mkv.temp'', ''--audio-tracks'', ''1'', ''d/fail.mkv''],
         Log ''Failed''],
        [])"
proof -
  let ?r = "example_file ''fail.mkv'' [''--audio-tracks'', ''1'']"
  have c: "remux_cmd ?r
             = [MKVMERGE, ''-o'', ''d/fail.mkv.temp'', ''--audio-tracks'', ''1'', ''d/fail.mkv'']"
    by (simp add: remux_cmd_def example_file_def join_def)
  have h1: "\<not> (audio_args ?r = [] \<and> subtitle_args ?r = [])"
    by (simp add: example_file_def)
  have h2: "run_process (example_env None None) (remux_cmd ?r) (fsys example_state)
              = (2, ''remux error'', fsys example_state)"
    by (simp add: c example_env_def example_tool_def MKVMERGE_def)
  have h3: "(2::int) \<noteq> 0"
    by simp
  have f: "filename ?r = ''fail.mkv''"
    by (simp add: example_file_def)
  show ?thesis
    using remux_failure_no_commit [OF h1 h2 h3]
    by (simp add: outcome_def c f example_state_def)
qed

text \<open>The trace of an iteration with work that ends normally.\<close>

lemma process_file_trace:
  assumes "process_file e r st = Inr st'"
      and "\<not> (audio_args r = [] \<and> subtitle_args r = [])"
  shows "events st' = events st @
           [Log (''['' @ filename r @ ''] Processing ...''), Popen (remux_cmd r),
            Log ''Success'',
            Rename (join (root r) (filename r)) (join (root r) (''old'' @ filename r)),
            Rename (join (root r) (filename r) @ ''.temp'') (join (root r) (filename r))]"
  using assms
  by (auto simp: process_file_def critical_def Let_def os_rename_def
           split: prod.splits if_splits option.splits)

text \<open>
  Claim C6. A file is committed when its iteration ends normally after a remux. Then the
  tool returned zero and left both the original and the temporary file on disk, and the
  trace of the iteration ends with exactly two renames in this order: the original path to
  the backup path (the same directory, the file name prefixed with \<open>old\<close>), then the
  temporary path to the original path. Afterwards the backup path holds the old content
  and the original path holds the new content.
\<close>

theorem commit_order:
  assumes "process_file e r st = Inr st'"
      and "\<not> (audio_args r = [] \<and> subtitle_args r = [])"
  shows "\<exists>out disk old new.
           run_process e (remux_cmd r) (fsys st) = (0, out, disk)
         \<and> disk (join (root r) (filename r)) = Some old
         \<and> disk (join (root r) (filename r) @ ''.temp'') = Some new
         \<and> events st' = events st @
              [Log (''['' @ filename r @ ''] Processing ...''), Popen (remux_cmd r),
               Log ''Success'',
               Rename (join (root r) (filename r)) (join (root r) (''old'' @ filename r)),
               Rename (join (root r) (filename r) @ ''.temp'') (join (root r) (filename r))]
         \<and> fsys st' (join (root r) (''old'' @ filename r)) = Some old
         \<and> fsys st' (join (root r) (filename r)) = Some new"
proof -
  obtain rc out disk where run: "run_process e (remux_cmd r) (fsys st) = (rc, out, disk)"
    by (cases "run_process e (remux_cmd r) (fsys st)") auto
  have rc: "rc = 0"
    using assms run by (auto simp: process_file_def critical_def Let_def split: if_splits)
  obtain old where old: "disk (join (root r) (filename r)) = Some old"
    using assms run rc
    by (cases "disk (join (root r) (filename r))")
       (auto simp: process_file_def critical_def Let_def os_rename_def)
  obtain new where new: "disk (join (root r) (filename r) @ ''.temp'') = Some new"
    using assms run rc old backup_ne_temp [of "root r" "filename r"]
    by (cases "disk (join (root r) (filename r) @ ''.temp'')")
       (auto simp: process_file_def critical_def Let_def os_rename_def)
  have "events st' = events st @
              [Log (''['' @ filename r @ ''] Processing ...''), Popen (remux_cmd r),
               Log ''Success'',
               Rename (join (root r) (filename r)) (join (root r) (''old'' @ filename r)),
               Rename (join (root r) (filename r) @ ''.temp'') (join (root r) (filename r))]
         \<and> fsys st' (join (root r) (''old'' @ filename r)) = Some old
         \<and> fsys st' (join (root r) (filename r)) = Some new"
    using assms run rc old new
      backup_ne_path [of "root r" "filename r"] backup_ne_temp [of "root r" "filename r"]
    by (auto simp: process_file_def critical_def Let_def os_rename_def)
  with run rc old new show ?thesis
    by blast
qed

text \<open>The converse: a zero return code with both files on disk commits.\<close>

lemma commit_succeeds:
  assumes "\<not> (audio_args r = [] \<and> subtitle_args r = [])"
      and "run_process e (remux_cmd r) (fsys st) = (0, out, disk)"
      and "disk (join (root r) (filename r)) = Some old"
      and "disk (join (root r) (filename r) @ ''.temp'') = Some new"
  shows "\<exists>st'. process_file e r st = Inr st'"
  using assms backup_ne_path [of "root r" "filename r"] backup_ne_temp [of "root r" "filename r"]
  by (simp add: process_file_def critical_def Let_def os_rename_def)

theorem commit_order_witness:
  "\<exists>out disk.
      run_process (example_env None None)
        (remux_cmd (example_file ''a.mkv'' [''--audio-tracks'', ''1''])) (fsys example_state)
        = (0, out, disk)
    \<and> disk ''d/a.mkv'' = Some ''orig''
    \<and> disk ''d/a.mkv.temp'' = Some ''new''
    \<and> events (result_state (process_file (example_env None None)
                 (example_file ''a.mkv'' [''--audio-tracks'', ''1'']) example_state))
        = [Log ''[a.mkv] Processing ...'',
           Popen [MKVMERGE, ''-o'', ''d/a.mkv.temp'', ''--audio-tracks'', ''1'', ''d/a.mkv''],
           Log ''Success'', Rename ''d/a.mkv'' ''d/olda.mkv'', Rename ''d/a.mkv.temp'' ''d/a.mkv'']
    \<and> fsys (result_state (process_file (example_env None None)
                 (example_file ''a.mkv'' [''--audio-tracks'', ''1'']) example_state)) ''d/olda.mkv''
        = Some ''orig''
    \<and> fsys (result_state (process_file (example_env None None)
                 (example_file ''a.mkv'' [''--audio-tracks'', ''1'']) example_state)) ''d/a.mkv''
        = Some ''new''"
proof -
  let ?e = "example_env None None"
  let ?r = "example_file ''a.mkv'' [''--audio-tracks'', ''1'']"
  have c: "remux_cmd ?r
             = [MKVMERGE, ''-o'', ''d/a.mkv.temp'', ''--audio-tracks'', ''1'', ''d/a.mkv'']"
    by (simp add: remux_cmd_def example_file_def join_def)
  have h1: "\<not> (audio_args ?r = [] \<and> subtitle_args ?r = [])"
    by (simp add: example_file_def)
  have run: "run_process ?e (remux_cmd ?r) (fsys example_state)
               = (0, ''ok'', (fsys example_state)(''d/a.mkv.temp'' \<mapsto> ''new''))"
    by (simp add: c example_env_def example_tool_def MKVMERGE_def)
  have "\<exists>st'. process_file ?e ?r example_state = Inr st'"
    by (rule commit_succeeds [OF h1 run, of "''orig''" "''new''"])
       (simp_all add: example_file_def join_def example_state_def)
  then obtain st' where h2: "process_file ?e ?r example_state = Inr st'"
    by blast
  show ?thesis
    using commit_order [OF h2 h1] run h2
    by (simp add: result_state_def remux_cmd_def example_file_def join_def example_state_def)
qed

text \<open>
  Claim C10. For a file that is remuxed, the command starts the tool with \<open>-o\<close> and, as
  the output path, the original path with \<open>.temp\<close> appended, which is the entry
  \<open>filename.temp\<close> of the same directory. The process is started with exactly this
  command, and when the iteration ends normally its last act is the rename of that
  temporary path onto the original path.
\<close>

theorem temp_output_path:
  assumes "\<not> (audio_args r = [] \<and> subtitle_args r = [])"
  shows "remux_cmd r ! 1 = ''-o''
       \<and> remux_cmd r ! 2 = join (root r) (filename r) @ ''.temp''
       \<and> join (root r) (filename r) @ ''.temp'' = join (root r) (filename r @ ''.temp'')
       \<and> (\<exists>rest. events (result_state (process_file e r st))
                   = events st @ [Log (''['' @ filename r @ ''] Processing ...''),
                                  Popen (remux_cmd r)] @ rest)
       \<and> (\<forall>st'. process_file e r st = Inr st' \<longrightarrow>
             last (events st')
               = Rename (join (root r) (filename r) @ ''.temp'') (join (root r) (filename r)))"
proof -
  have a: "remux_cmd r ! 1 = ''-o'' \<and> remux_cmd r ! 2 = join (root r) (filename r) @ ''.temp''"
    by (simp add: remux_cmd_def)
  have b: "\<exists>rest. events (result_state (process_file e r st))
                   = events st @ [Log (''['' @ filename r @ ''] Processing ...''),
                                  Popen (remux_cmd r)] @ rest"
    using assms
    by (auto simp: process_file_def critical_def Let_def os_rename_def result_state_def
             split: prod.splits option.splits)
  have c: "\<forall>st'. process_file e r st = Inr st' \<longrightarrow>
             last (events st')
               = Rename (join (root r) (filename r) @ ''.temp'') (join (root r) (filename r))"
  proof (intro allI impI)
    fix st' assume "process_file e r st = Inr st'"
    from process_file_trace [OF this assms] show
      "last (events st')
         = Rename (join (root r) (filename r) @ ''.temp'') (join (root r) (filename r))"
      by simp
  qed
  show ?thesis
    using a b c by (simp add: join_temp)
qed

theorem temp_output_path_witness:
  "remux_cmd (example_file ''a.mkv'' [''--audio-tracks'', ''1'']) ! 2 = ''d/a.mkv.temp''
   \<and> last (events (result_state (process_file (example_env None None)
              (example_file ''a.mkv'' [''--audio-tracks'', ''1'']) example_state)))
       = Rename ''d/a.mkv.temp'' ''d/a.mkv''"
proof -
  let ?e = "example_env None None"
  let ?r = "example_file ''a.mkv'' [''--audio-tracks'', ''1'']"
  have h1: "\<not> (audio_args ?r = [] \<and> subtitle_args ?r = [])"
    by (simp add: example_file_def)
  have c: "remux_cmd ?r
             = [MKVMERGE, ''-o'', ''d/a.mkv.temp'', ''--audio-tracks'', ''1'', ''d/a.mkv'']"
    by (simp add: remux_cmd_def example_file_def join_def)
  have run: "run_process ?e (remux_cmd ?r) (fsys example_state)
               = (0, ''ok'', (fsys example_state)(''d/a.mkv.temp'' \<mapsto> ''new''))"
    by (simp add: c example_env_def example_tool_def MKVMERGE_def)
  have "\<exists>st'. process_file ?e ?r example_state = Inr st'"
    by (rule commit_succeeds [OF h1 run, of "''orig''" "''new''"])
       (simp_all add: example_file_def join_def example_state_def)
  then obtain st' where h2: "process_file ?e ?r example_state = Inr st'"
    by blast
  show ?thesis
    using temp_output_path [OF h1, of ?e example_state] h2
    by (simp add: result_state_def example_file_def join_def)
qed

section \<open>The loops stop at the first exception\<close>

lemma identify_loop_append:
  "identify_loop e (xs @ ys) st =
     (case identify_loop e xs st of Inl err \<Rightarrow> Inl err | Inr s \<Rightarrow> identify_loop e ys s)"
  by (induction xs arbitrary: st) (auto simp: Let_def split: sum.splits prod.splits)

lemma main_loop_append:
  "main_loop e (xs @ ys) st =
     (case main_loop e xs st of Inl err \<Rightarrow> Inl err | Inr s \<Rightarrow> main_loop e ys s)"
  by (induction xs arbitrary: st) (auto split: sum.splits)

lemma script_identify_error:
  "identify_loop e files st = Inl err \<Longrightarrow> script e files st = Inl err"
  by (simp add: script_def bind_def)

text \<open>
  Claim C2, as stated, fails: with two files of which the first cannot be identified, the
  run ends in the exception of the first, and the second is never identified nor entered
  in the dict.
\<close>

theorem identify_failure_counterexample:
  "outcome (script (example_env (Some ''eng'') None) [''bad.mkv'', ''a.mkv''] example_state)
     = (Some (Exception ''boom''),
        [Log ''[bad.mkv] Identifying'',
         Popen [''C:/Program Files/MKVtoolnix/mkvmerge.exe'', ''--identify-verbose'', ''d/bad.mkv''],
         Log ''[bad.mkv] mkvmerge failed to identify the file''],
        [])
   \<and> Popen [''C:/Program Files/MKVtoolnix/mkvmerge.exe'', ''--identify-verbose'', ''d/a.mkv'']
       \<notin> set (fst (snd (outcome
             (script (example_env (Some ''eng'') None) [''bad.mkv'', ''a.mkv''] example_state))))"
  by code_simp

text \<open>
  Claim C2, amended. A per-file failure is logged and raised, and nothing catches it: when
  the identification of a file returns a non-zero code, the whole script ends there in the
  exception, whatever files follow; when the remux of a file returns a non-zero code, the
  last loop ends there in the exception, whatever files follow. The state at the end is
  the one the files before had produced, with the log lines and the process of the failing
  file and nothing of the later ones.
\<close>

theorem failure_aborts_run:
  "(identify_loop e pre st = Inr st1
      \<and> run_process e [MKVMERGE, ''--identify-verbose'', join (input_directory e) f] (fsys st1)
          = (rc, out, disk)
      \<and> rc \<noteq> 0
    \<longrightarrow> script e (pre @ f # rest) st =
          Inl (Exception out,
               st1\<lparr>events := events st1 @
                      [Log (''['' @ f @ ''] Identifying''),
                       Popen [MKVMERGE, ''--identify-verbose'', join (input_directory e) f],
                       Log (''['' @ f @ ''] mkvmerge failed to identify the file'')],
                    fsys := disk\<rparr>))
   \<and> (main_loop e pre_items st = Inr st2
      \<and> \<not> (audio_args r = [] \<and> subtitle_args r = [])
      \<and> run_process e (remux_cmd r) (fsys st2) = (rc', out', disk')
      \<and> rc' \<noteq> 0
    \<longrightarrow> main_loop e (pre_items @ (key, r) # post_items) st =
          Inl (Exception out',
               st2\<lparr>events := events st2 @
                      [Log (''['' @ filename r @ ''] Processing ...''), Popen (remux_cmd r),
                       Log ''Failed''],
                    fsys := disk'\<rparr>))"
proof (intro conjI impI)
  assume a: "identify_loop e pre st = Inr st1
      \<and> run_process e [MKVMERGE, ''--identify-verbose'', join (input_directory e) f] (fsys st1)
          = (rc, out, disk)
      \<and> rc \<noteq> 0"
  let ?s = "st1\<lparr>events := events st1 @
                      [Log (''['' @ f @ ''] Identifying''),
                       Popen [MKVMERGE, ''--identify-verbose'', join (input_directory e) f],
                       Log (''['' @ f @ ''] mkvmerge failed to identify the file'')],
                    fsys := disk\<rparr>"
  have "mkvmerge_identify e (input_directory e) f st1 = Inl (Exception out, ?s)"
    using a by (simp add: mkvmerge_identify_def critical_def Let_def)
  then have "identify_loop e (f # rest) st1 = Inl (Exception out, ?s)"
    by simp
  then have "identify_loop e (pre @ f # rest) st = Inl (Exception out, ?s)"
    using a by (simp add: identify_loop_append)
  then show "script e (pre @ f # rest) st = Inl (Exception out, ?s)"
    by (rule script_identify_error)
next
  assume b: "main_loop e pre_items st = Inr st2
      \<and> \<not> (audio_args r = [] \<and> subtitle_args r = [])
      \<and> run_process e (remux_cmd r) (fsys st2) = (rc', out', disk')
      \<and> rc' \<noteq> 0"
  let ?s = "st2\<lparr>events := events st2 @
                      [Log (''['' @ filename r @ ''] Processing ...''), Popen (remux_cmd r),
                       Log ''Failed''],
                    fsys := disk'\<rparr>"
  have "process_file e r st2 = Inl (Exception out', ?s)"
    using b by (simp add: process_file_def critical_def Let_def)
  then have "main_loop e ((key, r) # post_items) st2 = Inl (Exception out', ?s)"
    by simp
  then show "main_loop e (pre_items @ (key, r) # post_items) st = Inl (Exception out', ?s)"
    using b by (simp add: main_loop_append)
qed

theorem failure_aborts_run_witness:
  "fst (outcome (script (example_env (Some ''eng'') None) [''a.mkv'', ''bad.mkv'', ''c.mkv'']
                   example_state))
     = Some (Exception ''boom'')
   \<and> fst (outcome (main_loop (example_env None None)
                     [(''k1'', example_file ''a.mkv'' []),
                      (''k2'', example_file ''fail.mkv'' [''--audio-tracks'', ''1'']),
                      (''k3'', example_file ''a.mkv'' [''--audio-tracks'', ''1''])]
                     example_state))
     = Some (Exception ''remux error'')"
proof -
  let ?e = "example_env (Some ''eng'') None"
  let ?n = "example_env None None"
  let ?r = "example_file ''fail.mkv'' [''--audio-tracks'', ''1'']"
  have "case identify_loop ?e [''a.mkv''] example_state of Inl x \<Rightarrow> False | Inr s \<Rightarrow> True"
    by code_simp
  then obtain st1 where h1: "identify_loop ?e [''a.mkv''] example_state = Inr st1"
    by (cases "identify_loop ?e [''a.mkv''] example_state") auto
  have h2: "run_process ?e [MKVMERGE, ''--identify-verbose'', join (input_directory ?e) ''bad.mkv'']
              (fsys st1) = (1, ''boom'', fsys st1)"
    by (simp add: example_env_def example_tool_def join_def)
  have h3: "(1::int) \<noteq> 0"
    by simp
  have g1: "main_loop ?n [(''k1'', example_file ''a.mkv'' [])] example_state
              = Inr (critical ''[a.mkv] No work to be done'' example_state)"
    by (simp add: process_file_def example_file_def)
  have g2: "\<not> (audio_args ?r = [] \<and> subtitle_args ?r = [])"
    by (simp add: example_file_def)
  have g3: "run_process ?n (remux_cmd ?r)
              (fsys (critical ''[a.mkv] No work to be done'' example_state))
              = (2, ''remux error'', fsys example_state)"
    by (simp add: remux_cmd_def example_file_def join_def example_env_def example_tool_def
                  critical_def)
  have g4: "(2::int) \<noteq> 0"
    by simp
  note t1 = failure_aborts_run [of ?e "[''a.mkv'']" example_state st1 "''bad.mkv''" 1 "''boom''"
              "fsys st1" "[''c.mkv'']", THEN conjunct1]
  note t2 = failure_aborts_run [of ?n _ example_state _ _ _ _ _ _
              "[(''k1'', example_file ''a.mkv'' [])]"
              "critical ''[a.mkv] No work to be done'' example_state" ?r 2 "''remux error''"
              "fsys example_state" "''k2''"
              "[(''k3'', example_file ''a.mkv'' [''--audio-tracks'', ''1''])]", THEN conjunct2]
  from t1 h1 h2 h3 have
    "script ?e ([''a.mkv''] @ ''bad.mkv'' # [''c.mkv'']) example_state
       = Inl (Exception ''boom'',
              st1\<lparr>events := events st1 @
                     [Log (''['' @ ''bad.mkv'' @ ''] Identifying''),
                      Popen [MKVMERGE, ''--identify-verbose'', join (input_directory ?e) ''bad.mkv''],
                      Log (''['' @ ''bad.mkv'' @ ''] mkvmerge failed to identify the file'')],
                   fsys := fsys st1\<rparr>)"
    by blast
  then have r1: "fst (outcome (script ?e [''a.mkv'', ''bad.mkv'', ''c.mkv''] example_state))
                   = Some (Exception ''boom'')"
    by (simp add: outcome_def)
  from t2 g1 g2 g3 g4 have
    "main_loop ?n ([(''k1'', example_file ''a.mkv'' [])] @ (''k2'', ?r)
                     # [(''k3'', example_file ''a.mkv'' [''--audio-tracks'', ''1''])]) example_state
       = Inl (Exception ''remux error'',
              (critical ''[a.mkv] No work to be done'' example_state)
                \<lparr>events := events (critical ''[a.mkv] No work to be done'' example_state) @
                     [Log (''['' @ filename ?r @ ''] Processing ...''), Popen (remux_cmd ?r),
                      Log ''Failed''],
                 fsys := fsys example_state\<rparr>)"
    by blast
  then have r2: "fst (outcome (main_loop ?n
                     [(''k1'', example_file ''a.mkv'' []), (''k2'', ?r),
                      (''k3'', example_file ''a.mkv'' [''--audio-tracks'', ''1''])]
                     example_state))
                   = Some (Exception ''remux error'')"
    by (simp add: outcome_def)
  show ?thesis
    using r1 r2 by simp
qed

section \<open>Eligibility checks\<close>

text \<open>The check returns, and then returns the dict as it was, only when it deletes nothing.\<close>

lemma audio_check_loop_passes:
  "\<forall>p \<in> set items. 2 \<le> length (audio (snd p)) \<Longrightarrow> audio_check_loop items st = Inr st"
  by (induction items) auto

lemma audio_check_loop_raises:
  "\<exists>p \<in> set items. length (audio (snd p)) < 2 \<Longrightarrow>
   \<exists>s. audio_check_loop items st = Inl (RuntimeError ''dictionary changed size during iteration'', s)"
  by (induction items) (force simp: Let_def)+

lemma subtitle_check_loop_passes:
  "\<forall>p \<in> set items. 2 \<le> length (subtitle (snd p)) \<Longrightarrow> subtitle_check_loop items st = Inr st"
  by (induction items) auto

lemma subtitle_check_loop_raises:
  "\<exists>p \<in> set items. length (subtitle (snd p)) < 2 \<Longrightarrow>
   \<exists>s. subtitle_check_loop items st
         = Inl (RuntimeError ''dictionary changed size during iteration'', s)"
  by (induction items) (force simp: Let_def)+

text \<open>
  Claim C3. On a dict of two files, the second with one audio track and one subtitle
  track, neither check returns the dict without that file: each logs the file, deletes it
  and then ends in \<open>RuntimeError\<close>, the dict having changed size under the iteration.
\<close>

theorem eligibility_check_raises:
  "outcome (audio_check example_jobs)
     = (Some (RuntimeError ''dictionary changed size during iteration''),
        [Log ''[b.mkv] At least 1 audio track required''],
        [(''#a.mkv'', example_file ''a.mkv'' [])])
   \<and> outcome (subtitle_check example_jobs)
     = (Some (RuntimeError ''dictionary changed size during iteration''),
        [Log ''[b.mkv] At least 1 subtitle track required''],
        [(''#a.mkv'', example_file ''a.mkv'' [])])"
  by code_simp

section \<open>Track selection\<close>

text \<open>For the track type \<open>subtitle\<close> every iteration ends at the read of \<open>field\<close>.\<close>

lemma build_args_step_subtitle:
  "build_args_step e ''subtitle'' key r st =
     Inl (UnboundLocalError ''field'',
          st\<lparr>events := events st @
                 [Log (''['' @ filename r @ ''] Building CLI arguments for subtitle tracks'')]\<rparr>)"
  by (simp add: build_args_step_def critical_def)

lemma build_args_subtitle_raises:
  "file_to_tracks st \<noteq> [] \<Longrightarrow>
   \<exists>s. build_args e ''subtitle'' st = Inl (UnboundLocalError ''field'', s)"
  by (cases "file_to_tracks st") (auto simp: build_args_def build_args_step_subtitle)

text \<open>For the track type \<open>audio\<close>: no match, several matches, one match.\<close>

lemma build_args_step_audio_no_match:
  assumes "truthy (audio_language e)"
      and "filter (\<lambda>a. Some (snd a) = audio_language e) (audio r) = []"
  shows "build_args_step e ''audio'' key r st =
           Inl (NameError ''path'',
                st\<lparr>events := events st @
                       [Log (''['' @ filename r @ ''] Building CLI arguments for audio tracks'')]\<rparr>)"
  using assms by (simp add: build_args_step_def critical_def)

lemma build_args_step_audio_ambiguous:
  assumes "1 < length (filter (\<lambda>a. Some (snd a) = audio_language e) (audio r))"
  shows "build_args_step e ''audio'' key r st =
           Inr (st\<lparr>events := events st @
                       [Log (''['' @ filename r @ ''] Building CLI arguments for audio tracks''),
                        Log (''['' @ filename r @ ''] More than one audio track matching ''
                             @ str_opt (audio_language e) @ ''. Skipping'')]\<rparr>)"
  using assms by (auto simp: build_args_step_def critical_def Let_def)

lemma build_args_step_audio_unique:
  assumes "filter (\<lambda>a. Some (snd a) = audio_language e) (audio r) = [(i, l)]"
  shows "build_args_step e ''audio'' key r st =
           Inr (st\<lparr>events := events st @
                       [Log (''['' @ filename r @ ''] Building CLI arguments for audio tracks'')],
                   file_to_tracks :=
                     AList.update key
                       (r\<lparr>audio_args := [''--audio-tracks'', i, ''--default-track'', i @ '':1''],
                          subtitle_args := [''--audio-tracks'', i, ''--default-track'', i @ '':1'']\<rparr>)
                       (file_to_tracks st)\<rparr>)"
  using assms
  by (simp add: build_args_step_def critical_def Let_def track_args_def default_track_args_def)

text \<open>
  Claim C1. With only a subtitle language requested, the script ends in
  \<open>UnboundLocalError\<close> at the first file: no subtitle track is filtered and no subtitle
  arguments are stored. With only an audio language requested, the arguments built from
  the audio tracks and the audio language are stored as the subtitle arguments too.
\<close>

theorem subtitle_selection_raises:
  "outcome (script (example_env None (Some ''fre'')) [''a.mkv''] example_state)
     = (Some (UnboundLocalError ''field''),
        [Log ''[a.mkv] Identifying'',
         Popen [''C:/Program Files/MKVtoolnix/mkvmerge.exe'', ''--identify-verbose'', ''d/a.mkv''],
         Log ''[a.mkv] Extracting tracks'',
         Log ''[a.mkv] Found 2 audio and 2 subtitle tracks'',
         Log ''[a.mkv] Building CLI arguments for subtitle tracks''],
        [(''#a.mkv'', example_file ''a.mkv'' [])])
   \<and> outcome (build_args (example_env (Some ''eng'') None) ''audio'' example_job)
     = (None,
        [Log ''[a.mkv] Building CLI arguments for audio tracks''],
        [(''#a.mkv'',
          (example_file ''a.mkv'' [''--audio-tracks'', ''1'', ''--default-track'', ''1:1''])
            \<lparr>subtitle_args := [''--audio-tracks'', ''1'', ''--default-track'', ''1:1'']\<rparr>)])"
  by code_simp

text \<open>
  Claim C4. A file with two audio tracks, \<open>eng\<close> and \<open>jpn\<close>, and the audio language
  \<open>fre\<close>: no track matches, and the script does not report and go on; building the
  message raises \<open>NameError\<close>, which ends the run.
\<close>

theorem no_match_raises:
  "outcome (script (example_env (Some ''fre'') None) [''a.mkv''] example_state)
     = (Some (NameError ''path''),
        [Log ''[a.mkv] Identifying'',
         Popen [''C:/Program Files/MKVtoolnix/mkvmerge.exe'', ''--identify-verbose'', ''d/a.mkv''],
         Log ''[a.mkv] Extracting tracks'',
         Log ''[a.mkv] Found 2 audio and 2 subtitle tracks'',
         Log ''[a.mkv] Building CLI arguments for audio tracks''],
        [(''#a.mkv'', example_file ''a.mkv'' [])])"
  by code_simp

text \<open>
  Claim C5. A file with exactly one subtitle track in the requested language \<open>fre\<close>,
  track 4: for the track type \<open>subtitle\<close> nothing is selected and no arguments are
  built; the call ends in \<open>UnboundLocalError\<close> and the file's arguments stay empty.
\<close>

theorem unique_subtitle_raises:
  "filter (\<lambda>a. snd a = ''fre'') (subtitle (example_file ''a.mkv'' [])) = [(''4'', ''fre'')]
   \<and> outcome (build_args (example_env None (Some ''fre'')) ''subtitle'' example_job)
     = (Some (UnboundLocalError ''field''),
        [Log ''[a.mkv] Building CLI arguments for subtitle tracks''],
        [(''#a.mkv'', example_file ''a.mkv'' [])])"
  by code_simp

end
